theory Spec2Isabelle
  imports Complex_Main
begin

section \<open>The signaling relay of src/server.js\<close>

text \<open>
  The development embeds the WebSocket signaling relay of \<^verbatim>\<open>src/server.js\<close>: the
  per-connection message handler (token bucket, JSON envelope validation, local or
  cross-instance routing, the pairing gate on \<^verbatim>\<open>partner\<close>), the connection and close
  handlers, the idle timer, the heartbeat sweeper and the Redis subscriber.

  Conventions. A WebSocket handle is identified with the peer code under which the
  registry \<^verbatim>\<open>peers\<close> stores it. Everything a handler does to the outside world (frames
  written, close frames, pings, publications, counter increments labelled by kind) is
  returned as a list of effects, in program order. \<^verbatim>\<open>Date.now()\<close> is an argument of the
  handler. \<^verbatim>\<open>JSON.parse\<close> is outside the repository: an inbound frame is given as
  \<open>None\<close> when \<^verbatim>\<open>JSON.parse\<close> throws and as \<open>Some v\<close> when it returns the value \<open>v\<close>.
  \<^verbatim>\<open>JSON.stringify(v).length\<close> is a parameter \<open>slen\<close> of the handler.

  JavaScript numbers are IEEE doubles. A finite double is a rational, so token counts
  and rates are of type \<open>rat\<close>; the arithmetic of the bucket rounds after every
  operation, and the rounding of a rational to the nearest double is a parameter \<open>rnd\<close>
  of the handler, like \<open>slen\<close> a part of the language and not of the repository. What
  is proved holds for every \<open>rnd\<close>, or under hypotheses on \<open>rnd\<close> that the statement
  spells out. Overflow to an infinity and \<^verbatim>\<open>NaN\<close> are left out: the configured numbers
  are finite. The per-IP counter and the values of the Prometheus gauges are not
  modelled; a refresh of the pairs gauge is recorded as an effect.
\<close>

subsection \<open>JSON values as JavaScript sees them\<close>

datatype json =
    JNull
  | JBool bool
  | JNum rat
  | JStr string
  | JArr "json list"
  | JObj "(string \<times> json) list"

text \<open>JavaScript truthiness of a parsed JSON value.\<close>

fun truthy :: "json \<Rightarrow> bool" where
  "truthy JNull = False"
| "truthy (JBool b) = b"
| "truthy (JNum n) = (n \<noteq> 0)"
| "truthy (JStr s) = (s \<noteq> [])"
| "truthy (JArr xs) = True"
| "truthy (JObj kvs) = True"

text \<open>
  Reading one of the properties \<^verbatim>\<open>to\<close>, \<^verbatim>\<open>from\<close>, \<^verbatim>\<open>payload\<close>, \<^verbatim>\<open>type\<close>, \<^verbatim>\<open>sdp\<close>,
  \<^verbatim>\<open>candidate\<close> of a value: \<open>None\<close> is \<^verbatim>\<open>undefined\<close>. \<^verbatim>\<open>JSON.parse\<close> keeps the last of
  several equal keys; arrays, strings, numbers and booleans have none of these properties.
\<close>

fun get_prop :: "json \<Rightarrow> string \<Rightarrow> json option" where
  "get_prop (JObj kvs) k = map_of (rev kvs) k"
| "get_prop v k = None"

text \<open>\<^verbatim>\<open>payload && typeof payload === 'object'\<close>: objects and arrays.\<close>

fun is_object :: "json \<Rightarrow> bool" where
  "is_object (JObj kvs) = True"
| "is_object (JArr xs) = True"
| "is_object v = False"

subsection \<open>State and effects\<close>

datatype effect =
    Send string json
  | Close nat string
  | Terminate
  | Ping
  | Publish json
  | IncSignals json
  | UpdatePairsGauge
  | RedisHSet string
  | RedisHDel string

text \<open>
  The module-level state: \<^verbatim>\<open>peers\<close> (the keys of the registry), \<^verbatim>\<open>partner\<close> (a \<^verbatim>\<open>Map\<close>
  from peer code to a peer code or \<^verbatim>\<open>null\<close>; an absent key reads \<^verbatim>\<open>undefined\<close>) and the
  counter \<^verbatim>\<open>ws_errors_total\<close>.
\<close>

record relay =
  peers :: "string set"
  partner :: "string \<rightharpoonup> string option"
  wsErrorsCounter :: nat

text \<open>
  The state of one connection: \<^verbatim>\<open>ws._bucket\<close> (tokens, last, cfg.rate, cfg.burst),
  the closure variable \<^verbatim>\<open>signalTimeout\<close> (\<open>True\<close> while the idle timer is armed) and
  \<^verbatim>\<open>ws.isAlive\<close>.
\<close>

record conn =
  b_tokens :: rat
  b_last :: int
  cfg_rate :: rat
  cfg_burst :: rat
  signalTimeout :: bool
  isAlive :: bool

record config =
  useRedis :: bool
  WS_MSG_RATE :: rat
  WS_MSG_BURST :: rat

text \<open>\<^verbatim>\<open>send(ws, msg)\<close>: a best-effort write of the serialised message.\<close>

definition send :: "string \<Rightarrow> json \<Rightarrow> effect list" where
  "send ws msg = [Send ws msg]"

text \<open>\<^verbatim>\<open>partner.get(k) || null\<close>: absent, \<^verbatim>\<open>null\<close> and the empty string all read \<^verbatim>\<open>null\<close>.\<close>

fun or_null :: "string option option \<Rightarrow> string option" where
  "or_null (Some (Some x)) = (if x = [] then None else Some x)"
| "or_null v = None"

subsection \<open>The message handler (server.js, lines 312 to 417)\<close>

text \<open>
  Lines 314 to 328, the token bucket. \<open>refill\<close> is lines 317 and 319, the bucket after the
  time since the last frame has been credited: the difference of the two millisecond
  clocks and its maximum with 0 are exact, the division by 1000, the product with the
  rate and the sum are each rounded, the minimum is exact. Line 327 rounds the
  difference. The result of \<open>rate_limit\<close> is the updated connection and whether the
  frame may proceed; when it may not, the handler counts an error and closes with 1008.
  A rate that is not positive skips the bucket altogether.
\<close>

definition refill :: "(rat \<Rightarrow> rat) \<Rightarrow> int \<Rightarrow> conn \<Rightarrow> rat" where
  "refill rnd now c =
     (let elapsed = rnd (of_int (max 0 (now - b_last c)) / 1000)
      in min (cfg_burst c) (rnd (b_tokens c + rnd (elapsed * cfg_rate c))))"

definition rate_limit :: "(rat \<Rightarrow> rat) \<Rightarrow> int \<Rightarrow> conn \<Rightarrow> conn \<times> bool" where
  "rate_limit rnd now c =
     (if cfg_rate c > 0 then
        (let t = refill rnd now c
         in if t < 1 then (c\<lparr>b_last := now, b_tokens := t\<rparr>, False)
            else (c\<lparr>b_last := now, b_tokens := rnd (t - 1)\<rparr>, True))
      else (c, True))"

text \<open>
  Lines 337 to 341, the envelope check after \<^verbatim>\<open>msg || {}\<close>: \<^verbatim>\<open>to\<close> must be a string
  and \<^verbatim>\<open>payload\<close> a non-null object. The result carries \<^verbatim>\<open>to\<close>, \<^verbatim>\<open>payload\<close> and \<^verbatim>\<open>type\<close>.
\<close>

definition envelope :: "json \<Rightarrow> (string \<times> json \<times> json option) option" where
  "envelope parsed =
     (let msg = (if truthy parsed then parsed else JObj []) in
      case get_prop msg ''to'' of
        Some (JStr to) \<Rightarrow>
          (case get_prop msg ''payload'' of
             Some payload \<Rightarrow>
               if is_object payload then Some (to, payload, get_prop msg ''type'') else None
           | None \<Rightarrow> None)
      | _ \<Rightarrow> None)"

definition kinds :: "string list" where
  "kinds = [''offer'', ''answer'', ''candidate'', ''bye'', ''busy'']"

text \<open>Line 364: \<^verbatim>\<open>['offer', 'answer', 'candidate', 'bye', 'busy'].includes(kind)\<close>.\<close>

fun known_kind :: "json option \<Rightarrow> bool" where
  "known_kind (Some (JStr k)) = (k \<in> set kinds)"
| "known_kind v = False"

text \<open>Lines 366 and 367: \<^verbatim>\<open>payload?.f && JSON.stringify(payload.f).length > limit\<close>.\<close>

definition too_long :: "(json \<Rightarrow> nat) \<Rightarrow> json \<Rightarrow> string \<Rightarrow> nat \<Rightarrow> bool" where
  "too_long slen payload f limit =
     (case get_prop payload f of
        Some v \<Rightarrow> truthy v \<and> slen v > limit
      | None \<Rightarrow> False)"

text \<open>
  Lines 377 and 388, the test shared by the offer and the answer branch:
  \<^verbatim>\<open>(pFrom && pFrom !== to) || (pTo && pTo !== id)\<close>.
\<close>

definition conflict :: "string \<Rightarrow> string \<Rightarrow> string option \<Rightarrow> string option \<Rightarrow> bool" where
  "conflict ident to pFrom pTo =
     ((pFrom \<noteq> None \<and> pFrom \<noteq> Some to) \<or> (pTo \<noteq> None \<and> pTo \<noteq> Some ident))"

text \<open>
  Line 404, the candidate gate:
  \<^verbatim>\<open>pFrom === to || pTo === id || (pFrom === null && pTo === null)\<close>.
\<close>

definition candidate_ok :: "string \<Rightarrow> string \<Rightarrow> string option \<Rightarrow> string option \<Rightarrow> bool" where
  "candidate_ok ident to pFrom pTo =
     (pFrom = Some to \<or> pTo = Some ident \<or> (pFrom = None \<and> pTo = None))"

text \<open>The counter label \<^verbatim>\<open>kind || 'unknown'\<close>.\<close>

definition label :: "json option \<Rightarrow> json" where
  "label kind =
     (case kind of
        Some k \<Rightarrow> if truthy k then k else JStr ''unknown''
      | None \<Rightarrow> JStr ''unknown'')"

definition busy_envelope :: "string \<Rightarrow> json" where
  "busy_envelope to =
     JObj [(''from'', JStr to), (''type'', JStr ''signal''),
           (''payload'', JObj [(''type'', JStr ''busy'')])]"

definition relayed_envelope :: "string \<Rightarrow> json \<Rightarrow> json" where
  "relayed_envelope ident payload =
     JObj [(''from'', JStr ident), (''type'', JStr ''signal''), (''payload'', payload)]"

text \<open>
  Lines 360 to 416: the destination \<open>to\<close> is in the local registry. The branches are
  those of the source, in its order; \<open>pFrom\<close> and \<open>pTo\<close> are read once, before any update.
\<close>

definition relay_signal ::
  "(json \<Rightarrow> nat) \<Rightarrow> string \<Rightarrow> string \<Rightarrow> json \<Rightarrow> relay \<times> conn \<Rightarrow> relay \<times> conn \<times> effect list"
where
  "relay_signal slen ident to payload sc =
     (let s = fst sc; c = snd sc;
          pFrom = or_null (partner s ident);
          pTo = or_null (partner s to);
          kind = get_prop payload ''type''
      in
      if \<not> known_kind kind then (s, c, [])
      else if too_long slen payload ''sdp'' 200000 then (s, c, [])
      else if too_long slen payload ''candidate'' 50000 then (s, c, [])
      else
        (let c1 = c\<lparr>signalTimeout := False\<rparr> in
         if kind = Some (JStr ''offer'') \<and> conflict ident to pFrom pTo
           then (s, c1, send ident (busy_envelope to))
         else
           (let p1 = (if kind = Some (JStr ''offer'')
                      then (partner s)(ident \<mapsto> Some to) else partner s) in
            if kind = Some (JStr ''answer'') \<and> conflict ident to pFrom pTo
              then (s\<lparr>partner := p1\<rparr>, c1, [])
            else
              (let p2 = (if kind = Some (JStr ''answer'')
                         then p1(ident \<mapsto> Some to, to \<mapsto> Some ident) else p1);
                   p3 = (if kind = Some (JStr ''bye'') \<and> pFrom = Some to
                         then p2(ident \<mapsto> None) else p2);
                   p4 = (if kind = Some (JStr ''bye'') \<and> pTo = Some ident
                         then p3(to \<mapsto> None) else p3)
               in
               if kind = Some (JStr ''candidate'') \<and> \<not> candidate_ok ident to pFrom pTo
                 then (s\<lparr>partner := p4\<rparr>, c1, [])
               else (s\<lparr>partner := p4\<rparr>, c1,
                     send to (relayed_envelope ident payload)
                       @ [IncSignals (label kind), UpdatePairsGauge])))))"

text \<open>
  The error exit of lines 333 and 339: count and ignore the frame.
\<close>

definition count_error :: "relay \<Rightarrow> relay" where
  "count_error s = s\<lparr>wsErrorsCounter := wsErrorsCounter s + 1\<rparr>"

definition peers_reply :: json where
  "peers_reply = JObj [(''type'', JStr ''peers''), (''peers'', JArr [])]"

definition cross_instance_message :: "string \<Rightarrow> string \<Rightarrow> json \<Rightarrow> json" where
  "cross_instance_message to ident payload =
     JObj [(''to'', JStr to), (''from'', JStr ident), (''payload'', payload),
           (''type'', JStr ''signal'')]"

text \<open>
  The whole handler of \<^verbatim>\<open>ws.on('message')\<close> for the connection with code \<open>ident\<close>:
  the token bucket, then \<^verbatim>\<open>JSON.parse\<close>, the envelope check, the \<^verbatim>\<open>list\<close> request, the
  registry lookup with the publication on a miss (lines 350 to 358), and the local relay.
\<close>

definition on_message ::
  "bool \<Rightarrow> (json \<Rightarrow> nat) \<Rightarrow> (rat \<Rightarrow> rat) \<Rightarrow> string \<Rightarrow> int \<Rightarrow> json option
     \<Rightarrow> relay \<times> conn \<Rightarrow> relay \<times> conn \<times> effect list"
where
  "on_message redis slen rnd ident now data sc =
     (let s = fst sc; c = snd sc; c1 = fst (rate_limit rnd now c) in
      if \<not> snd (rate_limit rnd now c) then (count_error s, c1, [Close 1008 ''rate''])
      else
        (case data of
           None \<Rightarrow> (count_error s, c1, [])
         | Some parsed \<Rightarrow>
             (case envelope parsed of
                None \<Rightarrow> (count_error s, c1, [])
              | Some (to, payload, ty) \<Rightarrow>
                  if ty = Some (JStr ''list'') then (s, c1, send ident peers_reply)
                  else if to \<notin> peers s then
                    (s, c1, if redis then [Publish (cross_instance_message to ident payload)]
                            else [])
                  else relay_signal slen ident to payload (s, c1))))"

subsection \<open>Connection, close, idle timer, heartbeat, subscriber\<close>

definition welcome_msg :: "string \<Rightarrow> json" where
  "welcome_msg ident = JObj [(''type'', JStr ''welcome''), (''id'', JStr ident)]"

text \<open>
  Lines 287 to 310: the new connection is registered under the fresh code \<open>ident\<close>, its
  partner is \<^verbatim>\<open>null\<close>, its bucket is full and its idle timer armed.
\<close>

definition on_connection :: "config \<Rightarrow> string \<Rightarrow> int \<Rightarrow> relay \<Rightarrow> relay \<times> conn \<times> effect list" where
  "on_connection cfg ident now s =
     (s\<lparr>peers := insert ident (peers s), partner := (partner s)(ident \<mapsto> None)\<rparr>,
      \<lparr>b_tokens = WS_MSG_BURST cfg, b_last = now, cfg_rate = WS_MSG_RATE cfg,
       cfg_burst = WS_MSG_BURST cfg, signalTimeout = True, isAlive = True\<rparr>,
      send ident (welcome_msg ident) @ (if useRedis cfg then [RedisHSet ident] else []))"

text \<open>
  Lines 419 to 441: \<^verbatim>\<open>partner.get(p) === id\<close> is read after \<^verbatim>\<open>partner.delete(id)\<close>. The
  pairs gauge is refreshed (line 425) before the code is taken out of the Redis hash.
\<close>

definition on_close :: "config \<Rightarrow> string \<Rightarrow> relay \<times> conn \<Rightarrow> relay \<times> conn \<times> effect list" where
  "on_close cfg ident sc =
     (let s = fst sc; c = snd sc;
          p = or_null (partner s ident);
          p1 = (partner s)(ident := None);
          p2 = (case p of
                  Some q \<Rightarrow> if p1 q = Some (Some ident) then p1(q \<mapsto> None) else p1
                | None \<Rightarrow> p1)
      in (s\<lparr>peers := peers s - {ident}, partner := p2\<rparr>,
          c\<lparr>signalTimeout := False\<rparr>,
          UpdatePairsGauge # (if useRedis cfg then [RedisHDel ident] else [])))"

text \<open>
  Lines 306 to 310: what the idle timer does when its 60 seconds run out. It runs out
  only while it is armed; the handler and the close handler disarm it.
\<close>

definition idle_timeout :: "conn \<Rightarrow> effect list" where
  "idle_timeout c = (if signalTimeout c then [Close 1000 ''idle''] else [])"

text \<open>Lines 224 to 226, the \<^verbatim>\<open>pong\<close> listener.\<close>

definition heartbeat :: "conn \<Rightarrow> conn" where
  "heartbeat c = c\<lparr>isAlive := True\<rparr>"

text \<open>Lines 446 to 457: what one sweep of \<^verbatim>\<open>hbInterval\<close> does to one client.\<close>

definition hb_sweep :: "conn \<Rightarrow> conn \<times> effect list" where
  "hb_sweep c = (if \<not> isAlive c then (c, [Terminate]) else (c\<lparr>isAlive := False\<rparr>, [Ping]))"

text \<open>
  Lines 526 to 542, the Redis subscriber. \<open>own_channel\<close> says whether the message came on
  \<^verbatim>\<open>redisSignalsChannel\<close>. \<^verbatim>\<open>JSON.stringify\<close> leaves out a \<^verbatim>\<open>from\<close> that is \<^verbatim>\<open>undefined\<close>.
\<close>

definition redis_on_message :: "bool \<Rightarrow> json option \<Rightarrow> relay \<Rightarrow> effect list" where
  "redis_on_message own_channel data s =
     (if \<not> own_channel then []
      else
        (case data of
           None \<Rightarrow> []
         | Some parsed \<Rightarrow>
             (let msg = (if truthy parsed then parsed else JObj []) in
              if get_prop msg ''type'' \<noteq> Some (JStr ''signal'') then []
              else
                (case get_prop msg ''to'' of
                   Some (JStr to) \<Rightarrow>
                     (case get_prop msg ''payload'' of
                        None \<Rightarrow> []
                      | Some payload \<Rightarrow>
                          if \<not> truthy payload then []
                          else if to \<notin> peers s then []
                          else
                            send to
                              (JObj ((case get_prop msg ''from'' of
                                        None \<Rightarrow> []
                                      | Some f \<Rightarrow> [(''from'', f)])
                                     @ [(''type'', JStr ''signal''), (''payload'', payload)]))
                            @ [IncSignals (label (get_prop payload ''type''))])
                 | _ \<Rightarrow> []))))"

subsection \<open>Runs of the relay\<close>

text \<open>
  The relay with its open connections. An event is a new connection (with the code that
  \<^verbatim>\<open>uuidv4()\<close> returns, one that is not in use), an inbound frame on an open connection,
  or the close of an open connection. An event that cannot happen (a code in use, a frame
  or a close on a connection that is not open) leaves the state as it is.
\<close>

type_synonym sys = "relay \<times> (string \<rightharpoonup> conn)"

datatype event =
    Connect string int
  | Message string int "json option"
  | Disconnect string

definition init_sys :: sys where
  "init_sys = (\<lparr>peers = {}, partner = Map.empty, wsErrorsCounter = 0\<rparr>, Map.empty)"

fun apply_event ::
  "config \<Rightarrow> (json \<Rightarrow> nat) \<Rightarrow> (rat \<Rightarrow> rat) \<Rightarrow> event \<Rightarrow> sys \<Rightarrow> sys \<times> effect list"
where
  "apply_event cfg slen rnd (Connect ident now) (s, cs) =
     (if ident \<in> peers s \<or> ident = [] then ((s, cs), [])
      else (case on_connection cfg ident now s of
              (s', c, es) \<Rightarrow> ((s', cs(ident \<mapsto> c)), es)))"
| "apply_event cfg slen rnd (Message ident now data) (s, cs) =
     (case cs ident of
        None \<Rightarrow> ((s, cs), [])
      | Some c \<Rightarrow>
          (case on_message (useRedis cfg) slen rnd ident now data (s, c) of
             (s', c', es) \<Rightarrow> ((s', cs(ident \<mapsto> c')), es)))"
| "apply_event cfg slen rnd (Disconnect ident) (s, cs) =
     (case cs ident of
        None \<Rightarrow> ((s, cs), [])
      | Some c \<Rightarrow>
          (case on_close cfg ident (s, c) of
             (s', c', es) \<Rightarrow> ((s', cs(ident := None)), es)))"

fun run :: "config \<Rightarrow> (json \<Rightarrow> nat) \<Rightarrow> (rat \<Rightarrow> rat) \<Rightarrow> event list \<Rightarrow> sys \<Rightarrow> sys" where
  "run cfg slen rnd [] st = st"
| "run cfg slen rnd (ev # evs) st = run cfg slen rnd evs (fst (apply_event cfg slen rnd ev st))"

text \<open>The effects of the last event of a run.\<close>

fun last_effects ::
  "config \<Rightarrow> (json \<Rightarrow> nat) \<Rightarrow> (rat \<Rightarrow> rat) \<Rightarrow> event list \<Rightarrow> sys \<Rightarrow> effect list"
where
  "last_effects cfg slen rnd [] st = []"
| "last_effects cfg slen rnd [ev] st = snd (apply_event cfg slen rnd ev st)"
| "last_effects cfg slen rnd (ev # evs) st =
     last_effects cfg slen rnd evs (fst (apply_event cfg slen rnd ev st))"

text \<open>
  The frame the web client writes for a signal (web/logger.js, \<^verbatim>\<open>sendSignal\<close>):
  \<^verbatim>\<open>{ to, payload }\<close>.
\<close>

definition signal_frame :: "string \<Rightarrow> json \<Rightarrow> json" where
  "signal_frame to payload = JObj [(''to'', JStr to), (''payload'', payload)]"

definition sendSignal :: "string \<Rightarrow> json \<Rightarrow> json option" where
  "sendSignal to payload = Some (signal_frame to payload)"

definition kind_only :: "string \<Rightarrow> json" where
  "kind_only k = JObj [(''type'', JStr k)]"

text \<open>The defaults of \<^verbatim>\<open>WS_MSG_RATE\<close> and \<^verbatim>\<open>WS_MSG_BURST\<close>, without and with Redis.\<close>

definition default_config :: config where
  "default_config = \<lparr>useRedis = False, WS_MSG_RATE = 20, WS_MSG_BURST = 40\<rparr>"

definition redis_config :: config where
  "redis_config = \<lparr>useRedis = True, WS_MSG_RATE = 20, WS_MSG_BURST = 40\<rparr>"

text \<open>
  An offer or an answer that passes the envelope check and is addressed to the code of
  its own sender.
\<close>

fun self_addressed :: "event \<Rightarrow> bool" where
  "self_addressed (Message ident now (Some parsed)) =
     (case envelope parsed of
        Some (to, payload, ty) \<Rightarrow>
          to = ident \<and>
          (get_prop payload ''type'' = Some (JStr ''offer'') \<or>
           get_prop payload ''type'' = Some (JStr ''answer''))
      | None \<Rightarrow> False)"
| "self_addressed ev = False"

text \<open>I2 on the raw map: no code is stored as its own partner.\<close>

definition self_free :: "relay \<Rightarrow> bool" where
  "self_free s = (\<forall>x. partner s x \<noteq> Some (Some x))"




subsection \<open>Runs of the heartbeat\<close>

text \<open>
  What happens to one client between sweeps: a sweep of \<^verbatim>\<open>hbInterval\<close> reaches it, or its
  \<^verbatim>\<open>pong\<close> arrives. The run carries, beside the connection, two counters that the program
  does not keep: the pings sent and not acknowledged since the last \<^verbatim>\<open>pong\<close> (or since the
  connection was made), and the sweeps since then; and whether a sweep has terminated
  the client, after which nothing more happens to it.
\<close>

datatype hb_event = Sweep | Pong

type_synonym hb_state = "conn \<times> nat \<times> nat \<times> bool"

fun hb_step :: "hb_event \<Rightarrow> hb_state \<Rightarrow> hb_state" where
  "hb_step Pong (c, missed, sweeps, dead) =
     (if dead then (c, missed, sweeps, dead) else (heartbeat c, 0, 0, False))"
| "hb_step Sweep (c, missed, sweeps, dead) =
     (if dead then (c, missed, sweeps, dead)
      else (fst (hb_sweep c),
            missed + length (filter (\<lambda>e. e = Ping) (snd (hb_sweep c))),
            sweeps + 1,
            Terminate \<in> set (snd (hb_sweep c))))"

fun hb_run :: "hb_event list \<Rightarrow> hb_state \<Rightarrow> hb_state" where
  "hb_run [] st = st"
| "hb_run (ev # evs) st = hb_run evs (hb_step ev st)"

text \<open>Two sweeps in a row, with no \<^verbatim>\<open>pong\<close> between them.\<close>

fun two_sweeps :: "hb_event list \<Rightarrow> bool" where
  "two_sweeps (Sweep # Sweep # evs) = True"
| "two_sweeps (ev # evs) = two_sweeps evs"
| "two_sweeps [] = False"

definition hb_inv :: "hb_state \<Rightarrow> bool" where
  "hb_inv st =
     (case st of (c, missed, sweeps, dead) \<Rightarrow>
        if dead then missed = 1 \<and> sweeps = 2
        else if isAlive c then missed = 0 \<and> sweeps = 0
        else missed = 1 \<and> sweeps = 1)"

subsection \<open>Concrete configurations and connections\<close>

text \<open>
  The rounding of the concrete runs below. In each of them the clock differences are 0 or
  1000 milliseconds and every token count is an integer between 0 and 60, so every
  operation of the bucket has a result that is a double and rounding changes nothing.
\<close>

definition exact :: "rat \<Rightarrow> rat" where
  "exact x = x"



text \<open>The connection that \<open>on_connection\<close> sets up at time \<open>now\<close> on the empty relay.\<close>

definition new_conn :: "config \<Rightarrow> int \<Rightarrow> conn" where
  "new_conn cfg now = fst (snd (on_connection cfg ''A'' now (fst init_sys)))"

text \<open>
  A peer whose partner is some peer other than \<open>x\<close>: the specification's
  ``already partnered with some peer other than''.
\<close>

definition elsewhere :: "string option \<Rightarrow> string \<Rightarrow> bool" where
  "elsewhere p x = (case p of Some q \<Rightarrow> q \<noteq> x | None \<Rightarrow> False)"

text \<open>
  Relay states used as concrete inputs. In \<open>relay_free\<close> the peers A and B are connected
  and neither has a partner; in \<open>relay_dialed\<close> B has sent A an offer; \<open>relay_paired\<close> is
  the state of scenario S2, A and B mutually paired and C connected.
\<close>

definition relay_free :: relay where
  "relay_free =
     \<lparr>peers = {''A'', ''B''}, partner = [''A'' \<mapsto> None, ''B'' \<mapsto> None], wsErrorsCounter = 0\<rparr>"

definition relay_dialed :: relay where
  "relay_dialed =
     \<lparr>peers = {''A'', ''B''}, partner = [''A'' \<mapsto> None, ''B'' \<mapsto> Some ''A''],
      wsErrorsCounter = 0\<rparr>"

definition relay_paired :: relay where
  "relay_paired =
     \<lparr>peers = {''A'', ''B'', ''C''},
      partner = [''A'' \<mapsto> Some ''B'', ''B'' \<mapsto> Some ''A'', ''C'' \<mapsto> None],
      wsErrorsCounter = 0\<rparr>"

definition ice_candidate :: json where
  "ice_candidate = JObj [(''type'', JStr ''candidate''), (''candidate'', JStr ''host'')]"

section \<open>Properties\<close>

subsection \<open>The handler, stage by stage\<close>



lemma on_message_miss:
  assumes "snd (rate_limit rnd now c)" and "envelope parsed = Some (to, payload, ty)"
    and "ty \<noteq> Some (JStr ''list'')" and "to \<notin> peers s"
  shows "on_message redis slen rnd ident now (Some parsed) (s, c) =
         (s, fst (rate_limit rnd now c),
          if redis then [Publish (cross_instance_message to ident payload)] else [])"
  using assms by (simp add: on_message_def Let_def)

lemma on_message_local:
  assumes "snd (rate_limit rnd now c)" and "envelope parsed = Some (to, payload, ty)"
    and "ty \<noteq> Some (JStr ''list'')" and "to \<in> peers s"
  shows "on_message redis slen rnd ident now (Some parsed) (s, c) =
         relay_signal slen ident to payload (s, fst (rate_limit rnd now c))"
  using assms by (simp add: on_message_def Let_def)





subsection \<open>Self-pairing\<close>

lemma relay_signal_self_free:
  "self_free s \<Longrightarrow>
   to \<noteq> ident \<or> (get_prop payload ''type'' \<noteq> Some (JStr ''offer'') \<and>
                  get_prop payload ''type'' \<noteq> Some (JStr ''answer'')) \<Longrightarrow>
   self_free (fst (relay_signal slen ident to payload (s, c)))"
  by (auto simp: relay_signal_def self_free_def Let_def)

lemma on_message_self_free:
  assumes "self_free s" and "\<not> self_addressed (Message ident now data)"
  shows "self_free (fst (on_message redis slen rnd ident now data (s, c)))"
proof (cases data)
  case None
  with assms(1) show ?thesis
    by (simp add: on_message_def Let_def count_error_def self_free_def)
next
  case (Some parsed)
  show ?thesis
  proof (cases "envelope parsed")
    case None
    with Some assms(1) show ?thesis
      by (simp add: on_message_def Let_def count_error_def self_free_def)
  next
    case (Some e)
    obtain to payload ty where e: "e = (to, payload, ty)" by (cases e)
    from assms(2) \<open>data = Some parsed\<close> Some e
    have ns: "to \<noteq> ident \<or> (get_prop payload ''type'' \<noteq> Some (JStr ''offer'') \<and>
                  get_prop payload ''type'' \<noteq> Some (JStr ''answer''))"
      by auto
    have ce: "self_free (count_error s)"
      using assms(1) by (simp add: count_error_def self_free_def)
    from relay_signal_self_free [OF assms(1) ns] assms(1) ce \<open>data = Some parsed\<close> Some e
    show ?thesis
      by (simp add: on_message_def Let_def)
  qed
qed

lemma on_connection_self_free:
  "self_free s \<Longrightarrow> self_free (fst (on_connection cfg ident now s))"
  by (auto simp: on_connection_def self_free_def)

lemma on_close_self_free:
  "self_free s \<Longrightarrow> self_free (fst (on_close cfg ident (s, c)))"
  by (auto simp: on_close_def self_free_def Let_def split: option.splits)

lemma apply_event_self_free:
  "self_free (fst st) \<Longrightarrow> \<not> self_addressed ev \<Longrightarrow>
   self_free (fst (fst (apply_event cfg slen rnd ev st)))"
proof (cases st)
  case (Pair s cs)
  assume inv: "self_free (fst st)" and ns: "\<not> self_addressed ev"
  show ?thesis
  proof (cases ev)
    case (Connect ident now)
    with Pair inv on_connection_self_free [of s cfg ident now] show ?thesis
      by (simp add: case_prod_unfold)
  next
    case (Message ident now data)
    with Pair inv ns on_message_self_free [of s ident now data "useRedis cfg" slen rnd]
    show ?thesis
      by (simp add: case_prod_unfold split: option.splits)
  next
    case (Disconnect ident)
    with Pair inv on_close_self_free [of s cfg ident] show ?thesis
      by (simp add: case_prod_unfold split: option.splits)
  qed
qed

lemma run_self_free:
  "self_free (fst st) \<Longrightarrow> list_all (\<lambda>ev. \<not> self_addressed ev) evs \<Longrightarrow>
   self_free (fst (run cfg slen rnd evs st))"
proof (induction evs arbitrary: st)
  case Nil
  then show ?case by simp
next
  case (Cons ev evs)
  from Cons.prems have "self_free (fst (fst (apply_event cfg slen rnd ev st)))"
    by (simp add: apply_event_self_free)
  with Cons.IH [of "fst (apply_event cfg slen rnd ev st)"] Cons.prems show ?case by simp
qed

lemmas eval_defs =
  init_sys_def default_config_def redis_config_def on_connection_def on_close_def
  on_message_def rate_limit_def refill_def sendSignal_def signal_frame_def kind_only_def envelope_def relay_signal_def
  kinds_def too_long_def conflict_def candidate_ok_def send_def count_error_def label_def
  busy_envelope_def relayed_envelope_def cross_instance_message_def peers_reply_def
  welcome_msg_def ice_candidate_def exact_def Let_def

text \<open>
  C1, as the specification states it, fails. On a relay with the default configuration
  a peer connects under the code A and sends an offer addressed to A. The registry
  finds A, neither side has a partner, so line 383 runs \<^verbatim>\<open>partner.set(id, to)\<close> with both
  equal to A: A is recorded as its own partner.
\<close>

theorem C1_self_offer_counterexample:
  "partner (fst (run default_config (\<lambda>v. 0) exact
      [Connect ''A'' 0, Message ''A'' 0 (sendSignal ''A'' (kind_only ''offer''))]
      init_sys)) ''A'' = Some (Some ''A'')"
  by (simp add: eval_defs)

text \<open>
  C1, amended (self-freedom, I2). In every state reached from the empty relay by
  connections, closes and inbound frames of which none is an offer or an answer addressed
  to the code of its own sender, no code X has \<^verbatim>\<open>partner\<close> of X equal to X. The
  configuration, the serialised lengths, the rounding and the frames' contents are
  arbitrary.
\<close>

theorem C1_self_freedom_without_self_addressed:
  assumes "list_all (\<lambda>ev. \<not> self_addressed ev) evs"
  shows "partner (fst (run cfg slen rnd evs init_sys)) x \<noteq> Some (Some x)"
proof -
  have "self_free (fst init_sys)"
    by (simp add: self_free_def init_sys_def)
  from run_self_free [OF this assms, of cfg slen rnd] show ?thesis
    by (simp add: self_free_def)
qed

text \<open>
  The amended C1 at a run in which A and B connect and A sends B an offer: no offer or
  answer is self-addressed, and afterwards A is not its own partner.
\<close>

theorem C1_self_freedom_witness:
  "list_all (\<lambda>ev. \<not> self_addressed ev)
     [Connect ''A'' 0, Connect ''B'' 0, Message ''A'' 0 (sendSignal ''B'' (kind_only ''offer''))]
   \<and> partner (fst (run default_config (\<lambda>v. 0) exact
        [Connect ''A'' 0, Connect ''B'' 0, Message ''A'' 0 (sendSignal ''B'' (kind_only ''offer''))]
        init_sys)) ''A'' \<noteq> Some (Some ''A'')"
proof -
  have h: "list_all (\<lambda>ev. \<not> self_addressed ev)
     [Connect ''A'' 0, Connect ''B'' 0, Message ''A'' 0 (sendSignal ''B'' (kind_only ''offer''))]"
    by (simp add: sendSignal_def signal_frame_def kind_only_def envelope_def)
  from h C1_self_freedom_without_self_addressed [OF h, of default_config "\<lambda>v. 0" exact "''A''"]
  show ?thesis by simp
qed

subsection \<open>Token bucket\<close>












subsection \<open>Heartbeat\<close>

lemma hb_run_dead: "hb_run evs (c, m, k, True) = (c, m, k, True)"
proof (induction evs)
  case Nil
  then show ?case by simp
next
  case (Cons ev evs)
  then show ?case by (cases ev) simp_all
qed

lemma hb_step_inv: "hb_inv st \<Longrightarrow> hb_inv (hb_step ev st)"
  by (cases st; cases ev) (auto simp: hb_inv_def hb_sweep_def heartbeat_def)

lemma hb_run_inv: "hb_inv st \<Longrightarrow> hb_inv (hb_run evs st)"
  by (induction evs arbitrary: st) (simp_all add: hb_step_inv)

lemma hb_run_dead_iff:
  "snd (snd (snd (hb_run evs (c, m, k, False)))) =
   two_sweeps ((if isAlive c then [] else [Sweep]) @ evs)"
proof (induction evs arbitrary: c m k)
  case Nil
  then show ?case by simp
next
  case (Cons ev evs)
  show ?case
  proof (cases ev)
    case Sweep
    show ?thesis
    proof (cases "isAlive c")
      case True
      with Sweep Cons.IH [of "c\<lparr>isAlive := False\<rparr>" "m + 1" "k + 1"] show ?thesis
        by (simp add: hb_sweep_def)
    next
      case False
      with Sweep show ?thesis by (simp add: hb_sweep_def hb_run_dead)
    qed
  next
    case Pong
    with Cons.IH [of "heartbeat c" 0 0] show ?thesis
      by (simp add: heartbeat_def)
  qed
qed

text \<open>
  C9, as the specification states it, fails. A new connection (\<^verbatim>\<open>isAlive\<close> set by the
  connection handler) that never answers is reached by two sweeps: the first sends the
  only ping it ever gets, the second terminates it. One acknowledgement was missed, not
  two.
\<close>

theorem C9_single_miss_counterexample:
  "snd (snd (snd (hb_run [Sweep, Sweep] (new_conn default_config 0, 0, 0, False))))
   \<and> fst (snd (hb_run [Sweep, Sweep] (new_conn default_config 0, 0, 0, False))) = 1"
  by (simp add: new_conn_def default_config_def on_connection_def hb_sweep_def)

text \<open>
  C9, amended. The heartbeat sweeper terminates a connection exactly when two sweeps
  reach it with no \<^verbatim>\<open>pong\<close> between them, that is after a single missed acknowledgement:
  at that moment one ping is unacknowledged. A connection whose \<^verbatim>\<open>pong\<close> arrives between
  every two sweeps is never terminated by the heartbeat. The terminating sweep is the
  second one after the last acknowledgement (or after the connection was made), so with
  sweeps 30 seconds apart a terminated connection is terminated within at most 60
  seconds of its last acknowledgement; a connection that is not terminated has at most
  one ping unacknowledged and has seen at most one sweep since its last acknowledgement.
\<close>

theorem C9_heartbeat_single_miss:
  assumes "isAlive c" and "hb_run evs (c, 0, 0, False) = (c', missed, sweeps, dead)"
  shows "dead = two_sweeps evs
     \<and> (dead \<longrightarrow> missed = 1 \<and> sweeps = 2)
     \<and> (\<not> dead \<longrightarrow> missed \<le> 1 \<and> sweeps \<le> 1)"
proof -
  have "hb_inv (hb_run evs (c, 0, 0, False))"
    by (rule hb_run_inv) (simp add: hb_inv_def assms(1))
  then have inv: "hb_inv (c', missed, sweeps, dead)"
    by (simp add: assms(2))
  have d: "dead = two_sweeps evs"
    using assms hb_run_dead_iff [of evs c 0 0] by simp
  from inv d show ?thesis
    by (auto simp: hb_inv_def split: if_splits)
qed

text \<open>
  The amended C9 at a new connection that answers the first ping and not the second:
  the third sweep terminates it, with one ping unacknowledged, two sweeps after its
  \<^verbatim>\<open>pong\<close>.
\<close>

theorem C9_heartbeat_witness:
  "isAlive (new_conn default_config 0)
   \<and> hb_run [Sweep, Pong, Sweep, Sweep] (new_conn default_config 0, 0, 0, False)
       = ((new_conn default_config 0)\<lparr>isAlive := False\<rparr>, 1, 2, True)
   \<and> True = two_sweeps [Sweep, Pong, Sweep, Sweep]"
proof -
  have a: "isAlive (new_conn default_config 0)"
    by (simp add: new_conn_def on_connection_def)
  have r: "hb_run [Sweep, Pong, Sweep, Sweep] (new_conn default_config 0, 0, 0, False)
       = ((new_conn default_config 0)\<lparr>isAlive := False\<rparr>, 1, 2, True)"
    using a by (simp add: hb_sweep_def heartbeat_def)
  from a r C9_heartbeat_single_miss [OF a r] show ?thesis by blast
qed

subsection \<open>Routing and the pairing gate\<close>

lemma relay_signal_busy:
  assumes "get_prop payload ''type'' = Some (JStr ''busy'')"
    and "\<not> too_long slen payload ''sdp'' 200000" and "\<not> too_long slen payload ''candidate'' 50000"
  shows "relay_signal slen ident to payload (s, c)
         = (s, c\<lparr>signalTimeout := False\<rparr>,
            [Send to (relayed_envelope ident payload), IncSignals (JStr ''busy''), UpdatePairsGauge])"
  using assms by (simp add: relay_signal_def Let_def kinds_def send_def label_def)

lemma relay_signal_answer:
  assumes "get_prop payload ''type'' = Some (JStr ''answer'')"
    and "\<not> too_long slen payload ''sdp'' 200000" and "\<not> too_long slen payload ''candidate'' 50000"
  shows "relay_signal slen ident to payload (s, c)
         = (if (or_null (partner s ident) = None \<or> or_null (partner s ident) = Some to)
              \<and> (or_null (partner s to) = None \<or> or_null (partner s to) = Some ident)
            then (s\<lparr>partner := (partner s)(ident \<mapsto> Some to, to \<mapsto> Some ident)\<rparr>,
                  c\<lparr>signalTimeout := False\<rparr>,
                  [Send to (relayed_envelope ident payload), IncSignals (JStr ''answer''),
                   UpdatePairsGauge])
            else (s, c\<lparr>signalTimeout := False\<rparr>, []))"
  using assms by (auto simp: relay_signal_def Let_def kinds_def send_def label_def conflict_def)

lemma relay_signal_offer_conflict:
  assumes "get_prop payload ''type'' = Some (JStr ''offer'')"
    and "\<not> too_long slen payload ''sdp'' 200000" and "\<not> too_long slen payload ''candidate'' 50000"
    and "elsewhere (or_null (partner s ident)) to \<or> elsewhere (or_null (partner s to)) ident"
  shows "relay_signal slen ident to payload (s, c)
         = (s, c\<lparr>signalTimeout := False\<rparr>, [Send ident (busy_envelope to)])"
  using assms
  by (auto simp: relay_signal_def Let_def kinds_def send_def conflict_def elsewhere_def
      split: option.splits)

lemma relay_signal_answer_conflict:
  assumes "get_prop payload ''type'' = Some (JStr ''answer'')"
    and "\<not> too_long slen payload ''sdp'' 200000" and "\<not> too_long slen payload ''candidate'' 50000"
    and "elsewhere (or_null (partner s ident)) to \<or> elsewhere (or_null (partner s to)) ident"
  shows "relay_signal slen ident to payload (s, c) = (s, c\<lparr>signalTimeout := False\<rparr>, [])"
  using assms
  by (auto simp: relay_signal_def Let_def kinds_def send_def conflict_def elsewhere_def
      split: option.splits)

lemma relay_signal_candidate:
  assumes "get_prop payload ''type'' = Some (JStr ''candidate'')"
    and "\<not> too_long slen payload ''sdp'' 200000" and "\<not> too_long slen payload ''candidate'' 50000"
  shows "relay_signal slen ident to payload (s, c)
         = (s, c\<lparr>signalTimeout := False\<rparr>,
            if or_null (partner s ident) = Some to \<or> or_null (partner s to) = Some ident
               \<or> (or_null (partner s ident) = None \<and> or_null (partner s to) = None)
            then [Send to (relayed_envelope ident payload), IncSignals (JStr ''candidate''),
                  UpdatePairsGauge]
            else [])"
  using assms
  by (auto simp: relay_signal_def Let_def kinds_def send_def label_def candidate_ok_def)

lemma new_conn_admitted: "snd (rate_limit exact 0 (new_conn default_config 0))"
  by (simp add: new_conn_def default_config_def on_connection_def rate_limit_def refill_def
      exact_def)

lemma envelope_signal_frame:
  "is_object payload \<Longrightarrow> envelope (signal_frame to payload) = Some (to, payload, None)"
  by (simp add: envelope_def signal_frame_def)

text \<open>
  C2 on the code. On an instance with the bus configured, frames that the relay drops or
  refuses when their destination is registered locally are published when it is not,
  because the handler publishes and returns at lines 351 to 358, before the whitelist of
  line 364, the size guards of lines 366 and 367 and the gates of lines 377, 388 and 404.
  A frame of A whose \<^verbatim>\<open>payload.type\<close> is the unrecognised \<^verbatim>\<open>bogus\<close> is published, and
  dropped when addressed to the local peer B. An offer whose \<^verbatim>\<open>sdp\<close> serialises to 200001
  characters is published, and dropped when addressed to B. After A has sent B an offer
  (A is dialing B), an offer of A to the unregistered code is published, while the same
  offer to the local peer C is refused with \<^verbatim>\<open>busy\<close>. After C has sent B an offer, a
  candidate of C to the unregistered code is published, while the same candidate to the
  local peer D is dropped. And the subscriber of the instance on which A is registered
  and paired with B delivers to A a candidate that came over the bus from a code X.
\<close>

theorem C2_publish_skips_gating:
  "last_effects redis_config (\<lambda>v. 0) exact
     [Connect ''A'' 0, Connect ''B'' 0,
      Message ''A'' 0 (sendSignal ''ZZZZZZ'' (kind_only ''bogus''))] init_sys
     = [Publish (cross_instance_message ''ZZZZZZ'' ''A'' (kind_only ''bogus''))]
   \<and> last_effects redis_config (\<lambda>v. 0) exact
     [Connect ''A'' 0, Connect ''B'' 0,
      Message ''A'' 0 (sendSignal ''B'' (kind_only ''bogus''))] init_sys = []
   \<and> last_effects redis_config (\<lambda>v. 200001) exact
     [Connect ''A'' 0, Connect ''B'' 0,
      Message ''A'' 0 (sendSignal ''ZZZZZZ''
         (JObj [(''type'', JStr ''offer''), (''sdp'', JStr ''v=0'')]))] init_sys
     = [Publish (cross_instance_message ''ZZZZZZ'' ''A''
         (JObj [(''type'', JStr ''offer''), (''sdp'', JStr ''v=0'')]))]
   \<and> last_effects redis_config (\<lambda>v. 200001) exact
     [Connect ''A'' 0, Connect ''B'' 0,
      Message ''A'' 0 (sendSignal ''B''
         (JObj [(''type'', JStr ''offer''), (''sdp'', JStr ''v=0'')]))] init_sys = []
   \<and> last_effects redis_config (\<lambda>v. 0) exact
     [Connect ''A'' 0, Connect ''B'' 0, Connect ''C'' 0,
      Message ''A'' 0 (sendSignal ''B'' (kind_only ''offer'')),
      Message ''A'' 0 (sendSignal ''ZZZZZZ'' (kind_only ''offer''))] init_sys
     = [Publish (cross_instance_message ''ZZZZZZ'' ''A'' (kind_only ''offer''))]
   \<and> last_effects redis_config (\<lambda>v. 0) exact
     [Connect ''A'' 0, Connect ''B'' 0, Connect ''C'' 0,
      Message ''A'' 0 (sendSignal ''B'' (kind_only ''offer'')),
      Message ''A'' 0 (sendSignal ''C'' (kind_only ''offer''))] init_sys
     = [Send ''A'' (busy_envelope ''C'')]
   \<and> last_effects redis_config (\<lambda>v. 0) exact
     [Connect ''B'' 0, Connect ''C'' 0, Connect ''D'' 0,
      Message ''C'' 0 (sendSignal ''B'' (kind_only ''offer'')),
      Message ''C'' 0 (sendSignal ''ZZZZZZ'' ice_candidate)] init_sys
     = [Publish (cross_instance_message ''ZZZZZZ'' ''C'' ice_candidate)]
   \<and> last_effects redis_config (\<lambda>v. 0) exact
     [Connect ''B'' 0, Connect ''C'' 0, Connect ''D'' 0,
      Message ''C'' 0 (sendSignal ''B'' (kind_only ''offer'')),
      Message ''C'' 0 (sendSignal ''D'' ice_candidate)] init_sys = []
   \<and> redis_on_message True (Some (cross_instance_message ''A'' ''X'' ice_candidate)) relay_paired
     = [Send ''A'' (relayed_envelope ''X'' ice_candidate), IncSignals (JStr ''candidate'')]"
  by (simp add: eval_defs redis_on_message_def relay_paired_def)

text \<open>
  C3, as the specification states it, fails. A and B connect and A sends B a frame whose
  \<^verbatim>\<open>payload.type\<close> is \<^verbatim>\<open>busy\<close>: the whitelist of line 364 names \<^verbatim>\<open>busy\<close>, no branch
  handles it, and line 410 relays it to B.
\<close>

theorem C3_busy_forwarded_counterexample:
  "last_effects default_config (\<lambda>v. 0) exact
     [Connect ''A'' 0, Connect ''B'' 0,
      Message ''A'' 0 (sendSignal ''B'' (kind_only ''busy''))] init_sys
   = [Send ''B'' (relayed_envelope ''A'' (kind_only ''busy'')),
      IncSignals (JStr ''busy''), UpdatePairsGauge]"
  by (simp add: eval_defs)

text \<open>
  C3, amended. For every inbound client message whose \<^verbatim>\<open>payload.type\<close> is \<^verbatim>\<open>busy\<close>, that
  passes the token bucket and the envelope check, whose size guards do not trip and
  whose destination is in the local registry, the relay forwards the message to the
  destination as a RelayedEnvelope, regardless of the pairing state of sender and
  destination, and leaves the relay state (the pairing map with it) unchanged; only the
  sender's idle timer is cancelled.
\<close>

theorem C3_busy_is_forwarded:
  assumes "snd (rate_limit rnd now c)" and "envelope parsed = Some (to, payload, ty)"
    and "ty \<noteq> Some (JStr ''list'')" and "to \<in> peers s"
    and "get_prop payload ''type'' = Some (JStr ''busy'')"
    and "\<not> too_long slen payload ''sdp'' 200000"
    and "\<not> too_long slen payload ''candidate'' 50000"
  shows "on_message redis slen rnd ident now (Some parsed) (s, c)
         = (s, (fst (rate_limit rnd now c))\<lparr>signalTimeout := False\<rparr>,
            [Send to (relayed_envelope ident payload), IncSignals (JStr ''busy''),
             UpdatePairsGauge])"
  using on_message_local [OF assms(1-4), of redis slen ident]
    relay_signal_busy [OF assms(5-7), of ident to s "fst (rate_limit rnd now c)"]
  by simp

text \<open>
  The amended C3 in the state of scenario S2: C sends \<^verbatim>\<open>busy\<close> to A, who is paired with
  B, and A receives it.
\<close>

theorem C3_busy_witness:
  "snd (rate_limit exact 0 (new_conn default_config 0))
   \<and> envelope (signal_frame ''A'' (kind_only ''busy'')) = Some (''A'', kind_only ''busy'', None)
   \<and> ''A'' \<in> peers relay_paired
   \<and> get_prop (kind_only ''busy'') ''type'' = Some (JStr ''busy'')
   \<and> on_message False (\<lambda>v. 0) exact ''C'' 0 (Some (signal_frame ''A'' (kind_only ''busy'')))
        (relay_paired, new_conn default_config 0)
       = (relay_paired, (fst (rate_limit exact 0 (new_conn default_config 0)))\<lparr>signalTimeout := False\<rparr>,
          [Send ''A'' (relayed_envelope ''C'' (kind_only ''busy'')), IncSignals (JStr ''busy''),
           UpdatePairsGauge])"
proof -
  have e: "envelope (signal_frame ''A'' (kind_only ''busy'')) = Some (''A'', kind_only ''busy'', None)"
    by (simp add: envelope_signal_frame kind_only_def)
  have n: "None \<noteq> Some (JStr ''list'')" by simp
  have l: "''A'' \<in> peers relay_paired" by (simp add: relay_paired_def)
  have k: "get_prop (kind_only ''busy'') ''type'' = Some (JStr ''busy'')"
    by (simp add: kind_only_def)
  have g1: "\<not> too_long (\<lambda>v. 0) (kind_only ''busy'') ''sdp'' 200000"
    by (simp add: too_long_def kind_only_def)
  have g2: "\<not> too_long (\<lambda>v. 0) (kind_only ''busy'') ''candidate'' 50000"
    by (simp add: too_long_def kind_only_def)
  from new_conn_admitted e l k
    C3_busy_is_forwarded [OF new_conn_admitted e n l k g1 g2, of False "''C''"]
  show ?thesis by blast
qed

text \<open>
  C4, as the specification states it, fails. A and B connect, B sends A an offer and A
  answers. When the answer arrives A is Free (its partner is \<^verbatim>\<open>null\<close>: it has neither
  dialed nor paired), yet the answer is forwarded to B and A becomes paired with B.
\<close>

theorem C4_answer_from_free_counterexample:
  "partner (fst (run default_config (\<lambda>v. 0) exact
      [Connect ''A'' 0, Connect ''B'' 0,
       Message ''B'' 0 (sendSignal ''A'' (kind_only ''offer''))] init_sys)) ''A'' = Some None
   \<and> last_effects default_config (\<lambda>v. 0) exact
      [Connect ''A'' 0, Connect ''B'' 0,
       Message ''B'' 0 (sendSignal ''A'' (kind_only ''offer'')),
       Message ''A'' 0 (sendSignal ''B'' (kind_only ''answer''))] init_sys
     = [Send ''B'' (relayed_envelope ''A'' (kind_only ''answer'')),
        IncSignals (JStr ''answer''), UpdatePairsGauge]
   \<and> partner (fst (run default_config (\<lambda>v. 0) exact
      [Connect ''A'' 0, Connect ''B'' 0,
       Message ''B'' 0 (sendSignal ''A'' (kind_only ''offer'')),
       Message ''A'' 0 (sendSignal ''B'' (kind_only ''answer''))] init_sys)) ''A''
     = Some (Some ''B'')"
  by (simp add: eval_defs)

text \<open>
  C4, amended. An inbound answer from A addressed to the locally registered B (one that
  passes the token bucket, the envelope check and the size guards) is forwarded and
  makes both sides Paired, \<^verbatim>\<open>partner\<close> of A becoming B and \<^verbatim>\<open>partner\<close> of B becoming A,
  exactly when A has no partner or its partner is B, and B has no partner or its partner
  is A; so a Free sender, and a Free destination, are accepted. Otherwise (one side has
  a partner other than the other side) the answer is dropped silently and the relay
  state is unchanged. Either way the sender's idle timer is cancelled.
\<close>

theorem C4_answer_gate:
  assumes "snd (rate_limit rnd now c)" and "envelope parsed = Some (to, payload, ty)"
    and "ty \<noteq> Some (JStr ''list'')" and "to \<in> peers s"
    and "get_prop payload ''type'' = Some (JStr ''answer'')"
    and "\<not> too_long slen payload ''sdp'' 200000"
    and "\<not> too_long slen payload ''candidate'' 50000"
  shows "on_message redis slen rnd ident now (Some parsed) (s, c)
         = (if (or_null (partner s ident) = None \<or> or_null (partner s ident) = Some to)
              \<and> (or_null (partner s to) = None \<or> or_null (partner s to) = Some ident)
            then (s\<lparr>partner := (partner s)(ident \<mapsto> Some to, to \<mapsto> Some ident)\<rparr>,
                  (fst (rate_limit rnd now c))\<lparr>signalTimeout := False\<rparr>,
                  [Send to (relayed_envelope ident payload), IncSignals (JStr ''answer''),
                   UpdatePairsGauge])
            else (s, (fst (rate_limit rnd now c))\<lparr>signalTimeout := False\<rparr>, []))"
  using on_message_local [OF assms(1-4), of redis slen ident]
    relay_signal_answer [OF assms(5-7), of ident to s "fst (rate_limit rnd now c)"]
  by simp

text \<open>
  The amended C4 twice: in \<open>relay_dialed\<close> the Free peer A answers B, who has dialed A,
  and both become paired; in \<open>relay_paired\<close> the answer of C to A, who is paired with B,
  is dropped.
\<close>

theorem C4_answer_gate_witness:
  "snd (rate_limit exact 0 (new_conn default_config 0))
   \<and> envelope (signal_frame ''B'' (kind_only ''answer'')) = Some (''B'', kind_only ''answer'', None)
   \<and> ''B'' \<in> peers relay_dialed
   \<and> get_prop (kind_only ''answer'') ''type'' = Some (JStr ''answer'')
   \<and> on_message False (\<lambda>v. 0) exact ''A'' 0 (Some (signal_frame ''B'' (kind_only ''answer'')))
        (relay_dialed, new_conn default_config 0)
       = (relay_dialed\<lparr>partner := (partner relay_dialed)(''A'' \<mapsto> Some ''B'', ''B'' \<mapsto> Some ''A'')\<rparr>,
          (fst (rate_limit exact 0 (new_conn default_config 0)))\<lparr>signalTimeout := False\<rparr>,
          [Send ''B'' (relayed_envelope ''A'' (kind_only ''answer'')), IncSignals (JStr ''answer''),
           UpdatePairsGauge])
   \<and> envelope (signal_frame ''A'' (kind_only ''answer'')) = Some (''A'', kind_only ''answer'', None)
   \<and> ''A'' \<in> peers relay_paired
   \<and> on_message False (\<lambda>v. 0) exact ''C'' 0 (Some (signal_frame ''A'' (kind_only ''answer'')))
        (relay_paired, new_conn default_config 0)
       = (relay_paired, (fst (rate_limit exact 0 (new_conn default_config 0)))\<lparr>signalTimeout := False\<rparr>, [])"
proof -
  have e1: "envelope (signal_frame ''B'' (kind_only ''answer'')) = Some (''B'', kind_only ''answer'', None)"
    by (simp add: envelope_signal_frame kind_only_def)
  have e2: "envelope (signal_frame ''A'' (kind_only ''answer'')) = Some (''A'', kind_only ''answer'', None)"
    by (simp add: envelope_signal_frame kind_only_def)
  have n: "None \<noteq> Some (JStr ''list'')" by simp
  have l1: "''B'' \<in> peers relay_dialed" by (simp add: relay_dialed_def)
  have l2: "''A'' \<in> peers relay_paired" by (simp add: relay_paired_def)
  have k: "get_prop (kind_only ''answer'') ''type'' = Some (JStr ''answer'')"
    by (simp add: kind_only_def)
  have g1: "\<not> too_long (\<lambda>v. 0) (kind_only ''answer'') ''sdp'' 200000"
    by (simp add: too_long_def kind_only_def)
  have g2: "\<not> too_long (\<lambda>v. 0) (kind_only ''answer'') ''candidate'' 50000"
    by (simp add: too_long_def kind_only_def)
  have r1: "on_message False (\<lambda>v. 0) exact ''A'' 0 (Some (signal_frame ''B'' (kind_only ''answer'')))
        (relay_dialed, new_conn default_config 0)
       = (relay_dialed\<lparr>partner := (partner relay_dialed)(''A'' \<mapsto> Some ''B'', ''B'' \<mapsto> Some ''A'')\<rparr>,
          (fst (rate_limit exact 0 (new_conn default_config 0)))\<lparr>signalTimeout := False\<rparr>,
          [Send ''B'' (relayed_envelope ''A'' (kind_only ''answer'')), IncSignals (JStr ''answer''),
           UpdatePairsGauge])"
    using C4_answer_gate [OF new_conn_admitted e1 n l1 k g1 g2, of False "''A''"]
    by (simp add: relay_dialed_def)
  have r2: "on_message False (\<lambda>v. 0) exact ''C'' 0 (Some (signal_frame ''A'' (kind_only ''answer'')))
        (relay_paired, new_conn default_config 0)
       = (relay_paired, (fst (rate_limit exact 0 (new_conn default_config 0)))\<lparr>signalTimeout := False\<rparr>, [])"
    using C4_answer_gate [OF new_conn_admitted e2 n l2 k g1 g2, of False "''C''"]
    by (simp add: relay_paired_def)
  from new_conn_admitted e1 l1 k r1 e2 l2 r2 show ?thesis by blast
qed

text \<open>
  C5, as the specification states it, fails for candidates. A, B and D connect; A sends B
  an offer (A is dialing B); B sends D an offer and D answers, so that B and D are
  mutually paired. B is now partnered with a peer other than A, the conflict in which an
  offer of A to B is answered with \<^verbatim>\<open>busy\<close>. A candidate of A to B is nevertheless
  forwarded to B, because the gate of line 404 lets through any candidate whose sender's
  partner is the destination.
\<close>

theorem C5_candidate_conflict_counterexample:
  "partner (fst (run default_config (\<lambda>v. 0) exact
      [Connect ''A'' 0, Connect ''B'' 0, Connect ''D'' 0,
       Message ''A'' 0 (sendSignal ''B'' (kind_only ''offer'')),
       Message ''B'' 0 (sendSignal ''D'' (kind_only ''offer'')),
       Message ''D'' 0 (sendSignal ''B'' (kind_only ''answer''))] init_sys)) ''B''
     = Some (Some ''D'')
   \<and> last_effects default_config (\<lambda>v. 0) exact
      [Connect ''A'' 0, Connect ''B'' 0, Connect ''D'' 0,
       Message ''A'' 0 (sendSignal ''B'' (kind_only ''offer'')),
       Message ''B'' 0 (sendSignal ''D'' (kind_only ''offer'')),
       Message ''D'' 0 (sendSignal ''B'' (kind_only ''answer'')),
       Message ''A'' 0 (sendSignal ''B'' (kind_only ''offer''))] init_sys
     = [Send ''A'' (busy_envelope ''B'')]
   \<and> last_effects default_config (\<lambda>v. 0) exact
      [Connect ''A'' 0, Connect ''B'' 0, Connect ''D'' 0,
       Message ''A'' 0 (sendSignal ''B'' (kind_only ''offer'')),
       Message ''B'' 0 (sendSignal ''D'' (kind_only ''offer'')),
       Message ''D'' 0 (sendSignal ''B'' (kind_only ''answer'')),
       Message ''A'' 0 (sendSignal ''B'' ice_candidate)] init_sys
     = [Send ''B'' (relayed_envelope ''A'' ice_candidate),
        IncSignals (JStr ''candidate''), UpdatePairsGauge]"
  by (simp add: eval_defs)

text \<open>
  C5, amended (pairing-conflict policy). The frame comes from A, passes the token bucket,
  the envelope check and the size guards, and is addressed to the locally registered B.
  An offer, when A is partnered with some peer other than B or B is partnered with some
  peer other than A: A receives exactly the synthetic envelope with \<^verbatim>\<open>from\<close> B, \<^verbatim>\<open>type\<close>
  \<^verbatim>\<open>signal\<close> and the payload of type \<^verbatim>\<open>busy\<close>, nothing is delivered to B and the relay state
  is unchanged. An answer in the same conflict is dropped silently, the relay state
  unchanged. A candidate is dropped silently, the relay state unchanged, exactly when
  neither the partner of A is B, nor the partner of B is A, nor both are without
  partner; a candidate whose sender's partner is the destination, or whose destination's
  partner is the sender, is forwarded even when the other side is partnered elsewhere.
\<close>

theorem C5_conflict_policy:
  assumes "snd (rate_limit rnd now c)" and "envelope parsed = Some (to, payload, ty)"
    and "ty \<noteq> Some (JStr ''list'')" and "to \<in> peers s"
    and "\<not> too_long slen payload ''sdp'' 200000"
    and "\<not> too_long slen payload ''candidate'' 50000"
  shows "(get_prop payload ''type'' = Some (JStr ''offer'') \<and>
          (elsewhere (or_null (partner s ident)) to \<or> elsewhere (or_null (partner s to)) ident)
          \<longrightarrow> on_message redis slen rnd ident now (Some parsed) (s, c)
                = (s, (fst (rate_limit rnd now c))\<lparr>signalTimeout := False\<rparr>,
                   [Send ident (busy_envelope to)]))
     \<and> (get_prop payload ''type'' = Some (JStr ''answer'') \<and>
          (elsewhere (or_null (partner s ident)) to \<or> elsewhere (or_null (partner s to)) ident)
          \<longrightarrow> on_message redis slen rnd ident now (Some parsed) (s, c)
                = (s, (fst (rate_limit rnd now c))\<lparr>signalTimeout := False\<rparr>, []))
     \<and> (get_prop payload ''type'' = Some (JStr ''candidate'')
          \<longrightarrow> on_message redis slen rnd ident now (Some parsed) (s, c)
                = (s, (fst (rate_limit rnd now c))\<lparr>signalTimeout := False\<rparr>,
                   if or_null (partner s ident) = Some to \<or> or_null (partner s to) = Some ident
                      \<or> (or_null (partner s ident) = None \<and> or_null (partner s to) = None)
                   then [Send to (relayed_envelope ident payload),
                         IncSignals (JStr ''candidate''), UpdatePairsGauge]
                   else []))"
proof -
  have L: "on_message redis slen rnd ident now (Some parsed) (s, c)
           = relay_signal slen ident to payload (s, fst (rate_limit rnd now c))"
    by (rule on_message_local [OF assms(1-4)])
  show ?thesis
    unfolding L
  proof (intro conjI impI)
    assume "get_prop payload ''type'' = Some (JStr ''offer'') \<and>
      (elsewhere (or_null (partner s ident)) to \<or> elsewhere (or_null (partner s to)) ident)"
    then show "relay_signal slen ident to payload (s, fst (rate_limit rnd now c))
        = (s, (fst (rate_limit rnd now c))\<lparr>signalTimeout := False\<rparr>, [Send ident (busy_envelope to)])"
      using assms(5,6) by (simp add: relay_signal_offer_conflict)
  next
    assume "get_prop payload ''type'' = Some (JStr ''answer'') \<and>
      (elsewhere (or_null (partner s ident)) to \<or> elsewhere (or_null (partner s to)) ident)"
    then show "relay_signal slen ident to payload (s, fst (rate_limit rnd now c))
        = (s, (fst (rate_limit rnd now c))\<lparr>signalTimeout := False\<rparr>, [])"
      using assms(5,6) by (simp add: relay_signal_answer_conflict)
  next
    assume "get_prop payload ''type'' = Some (JStr ''candidate'')"
    then show "relay_signal slen ident to payload (s, fst (rate_limit rnd now c))
        = (s, (fst (rate_limit rnd now c))\<lparr>signalTimeout := False\<rparr>,
           if or_null (partner s ident) = Some to \<or> or_null (partner s to) = Some ident
              \<or> (or_null (partner s ident) = None \<and> or_null (partner s to) = None)
           then [Send to (relayed_envelope ident payload),
                 IncSignals (JStr ''candidate''), UpdatePairsGauge]
           else [])"
      using assms(5,6) by (simp add: relay_signal_candidate)
  qed
qed

text \<open>
  The amended C5 in the state of scenario S2 (A and B mutually paired, C connected):
  the offer of C to A is answered to C with the synthetic \<^verbatim>\<open>busy\<close> envelope, the answer of
  C to A and the candidate of C to A are dropped, and the relay state stays as it was.
\<close>

theorem C5_conflict_policy_witness:
  "snd (rate_limit exact 0 (new_conn default_config 0))
   \<and> ''A'' \<in> peers relay_paired
   \<and> elsewhere (or_null (partner relay_paired ''A'')) ''C''
   \<and> on_message False (\<lambda>v. 0) exact ''C'' 0 (Some (signal_frame ''A'' (kind_only ''offer'')))
        (relay_paired, new_conn default_config 0)
       = (relay_paired, (fst (rate_limit exact 0 (new_conn default_config 0)))\<lparr>signalTimeout := False\<rparr>,
          [Send ''C'' (busy_envelope ''A'')])
   \<and> on_message False (\<lambda>v. 0) exact ''C'' 0 (Some (signal_frame ''A'' (kind_only ''answer'')))
        (relay_paired, new_conn default_config 0)
       = (relay_paired, (fst (rate_limit exact 0 (new_conn default_config 0)))\<lparr>signalTimeout := False\<rparr>, [])
   \<and> on_message False (\<lambda>v. 0) exact ''C'' 0 (Some (signal_frame ''A'' ice_candidate))
        (relay_paired, new_conn default_config 0)
       = (relay_paired, (fst (rate_limit exact 0 (new_conn default_config 0)))\<lparr>signalTimeout := False\<rparr>, [])"
proof -
  let ?c = "new_conn default_config 0"
  have e: "\<And>p. is_object p \<Longrightarrow> envelope (signal_frame ''A'' p) = Some (''A'', p, None)"
    by (rule envelope_signal_frame)
  have n: "None \<noteq> Some (JStr ''list'')" by simp
  have l: "''A'' \<in> peers relay_paired" by (simp add: relay_paired_def)
  have w: "elsewhere (or_null (partner relay_paired ''A'')) ''C''"
    by (simp add: relay_paired_def elsewhere_def)
  have pa: "or_null (partner relay_paired ''A'') = Some ''B''"
    and pc: "or_null (partner relay_paired ''C'') = None"
    by (simp_all add: relay_paired_def)
  have g: "\<And>k. \<not> too_long (\<lambda>v. 0) (kind_only k) ''sdp'' 200000"
    "\<And>k. \<not> too_long (\<lambda>v. 0) (kind_only k) ''candidate'' 50000"
    "\<not> too_long (\<lambda>v. 0) ice_candidate ''sdp'' 200000"
    "\<not> too_long (\<lambda>v. 0) ice_candidate ''candidate'' 50000"
    by (simp_all add: too_long_def kind_only_def ice_candidate_def)
  have k: "\<And>k. get_prop (kind_only k) ''type'' = Some (JStr k)"
    "get_prop ice_candidate ''type'' = Some (JStr ''candidate'')"
    by (simp_all add: kind_only_def ice_candidate_def)
  have o: "\<And>k. is_object (kind_only k)" "is_object ice_candidate"
    by (simp_all add: kind_only_def ice_candidate_def)
  have r1: "on_message False (\<lambda>v. 0) exact ''C'' 0 (Some (signal_frame ''A'' (kind_only ''offer'')))
        (relay_paired, ?c)
       = (relay_paired, (fst (rate_limit exact 0 ?c))\<lparr>signalTimeout := False\<rparr>,
          [Send ''C'' (busy_envelope ''A'')])"
    using C5_conflict_policy [OF new_conn_admitted e [OF o(1)] n l g(1) g(2),
        of "''offer''" "''C''" False] k(1) w
    by simp
  have r2: "on_message False (\<lambda>v. 0) exact ''C'' 0 (Some (signal_frame ''A'' (kind_only ''answer'')))
        (relay_paired, ?c)
       = (relay_paired, (fst (rate_limit exact 0 ?c))\<lparr>signalTimeout := False\<rparr>, [])"
    using C5_conflict_policy [OF new_conn_admitted e [OF o(1)] n l g(1) g(2),
        of "''answer''" "''C''" False] k(1) w
    by simp
  have r3: "on_message False (\<lambda>v. 0) exact ''C'' 0 (Some (signal_frame ''A'' ice_candidate))
        (relay_paired, ?c)
       = (relay_paired, (fst (rate_limit exact 0 ?c))\<lparr>signalTimeout := False\<rparr>, [])"
    using C5_conflict_policy [OF new_conn_admitted e [OF o(2)] n l g(3) g(4),
        of "''C''" False] k(2) pa pc
    by simp
  from new_conn_admitted l w r1 r2 r3 show ?thesis by blast
qed

text \<open>
  C7 on the code. A and B connect under the default configuration. A frame of A to B
  whose \<^verbatim>\<open>payload.type\<close> is the unrecognised \<^verbatim>\<open>bogus\<close> is dropped by line 364 with no
  effect at all: \<^verbatim>\<open>ws_errors_total\<close> stays 0. So is an offer whose \<^verbatim>\<open>sdp\<close> serialises to
  200001 characters, dropped by line 366. A frame that \<^verbatim>\<open>JSON.parse\<close> rejects, and a frame
  without \<^verbatim>\<open>to\<close>, do raise the counter to 1 (lines 333 and 339).
\<close>

theorem C7_unknown_kind_not_counted:
  "wsErrorsCounter (fst (run default_config (\<lambda>v. 0) exact
      [Connect ''A'' 0, Connect ''B'' 0,
       Message ''A'' 0 (sendSignal ''B'' (kind_only ''bogus''))] init_sys)) = 0
   \<and> last_effects default_config (\<lambda>v. 0) exact
      [Connect ''A'' 0, Connect ''B'' 0,
       Message ''A'' 0 (sendSignal ''B'' (kind_only ''bogus''))] init_sys = []
   \<and> wsErrorsCounter (fst (run default_config (\<lambda>v. 200001) exact
      [Connect ''A'' 0, Connect ''B'' 0,
       Message ''A'' 0 (sendSignal ''B''
          (JObj [(''type'', JStr ''offer''), (''sdp'', JStr ''v=0'')]))] init_sys)) = 0
   \<and> last_effects default_config (\<lambda>v. 200001) exact
      [Connect ''A'' 0, Connect ''B'' 0,
       Message ''A'' 0 (sendSignal ''B''
          (JObj [(''type'', JStr ''offer''), (''sdp'', JStr ''v=0'')]))] init_sys = []
   \<and> wsErrorsCounter (fst (run default_config (\<lambda>v. 0) exact
      [Connect ''A'' 0, Connect ''B'' 0, Message ''A'' 0 None] init_sys)) = 1
   \<and> wsErrorsCounter (fst (run default_config (\<lambda>v. 0) exact
      [Connect ''A'' 0, Connect ''B'' 0,
       Message ''A'' 0 (Some (JObj [(''payload'', kind_only ''offer'')]))] init_sys)) = 1"
  by (simp add: eval_defs)

text \<open>
  C8 on the code. On an instance with the bus configured A connects and, one second
  later, sends a valid offer to a code that is not registered locally. The offer is
  published, but the handler returns at line 357, before line 370: the idle timer of A
  stays armed, and when it runs out the connection is closed with code 1000 and reason
  idle. The same offer to the local peer B disarms the timer.
\<close>

theorem C8_remote_signal_keeps_idle_timer:
  "last_effects redis_config (\<lambda>v. 0) exact
     [Connect ''A'' 0,
      Message ''A'' 1000 (sendSignal ''ZZZZZZ'' (kind_only ''offer''))] init_sys
     = [Publish (cross_instance_message ''ZZZZZZ'' ''A'' (kind_only ''offer''))]
   \<and> map_option idle_timeout (snd (run redis_config (\<lambda>v. 0) exact
     [Connect ''A'' 0,
      Message ''A'' 1000 (sendSignal ''ZZZZZZ'' (kind_only ''offer''))] init_sys) ''A'')
     = Some [Close 1000 ''idle'']
   \<and> map_option idle_timeout (snd (run redis_config (\<lambda>v. 0) exact
     [Connect ''A'' 0, Connect ''B'' 0,
      Message ''A'' 1000 (sendSignal ''B'' (kind_only ''offer''))] init_sys) ''A'')
     = Some []"
  by (simp add: eval_defs idle_timeout_def)

end
